theory Spec2Isabelle
  imports Complex_Main "HOL-Library.Log_Nat"
begin

section \<open>Strings\<close>

text \<open>
  A JavaScript string is modelled as a \<^typ>\<open>string\<close>: one \<^typ>\<open>char\<close> per UTF-16 code
  unit, for the code units up to 0xFF. \<open>String.prototype.trim\<close> removes the ECMAScript
  white space and line terminators from both ends; in that range these are TAB, LF, VT,
  FF, CR, SPACE and NBSP.
\<close>

definition js_whitespace :: "char \<Rightarrow> bool" where
  "js_whitespace c = (of_char c \<in> {9, 10, 11, 12, 13, 32, 160 :: nat})"

definition trim :: "string \<Rightarrow> string" where
  "trim s = rev (dropWhile js_whitespace (rev (dropWhile js_whitespace s)))"

text \<open>\<open>s.split(sep)\<close> for a one-character separator: the pieces between the separators.\<close>

fun split :: "char \<Rightarrow> string \<Rightarrow> string list" where
  "split sep [] = [[]]"
| "split sep (c # cs) =
     (if c = sep then [] # split sep cs
      else (case split sep cs of [] \<Rightarrow> [[c]] | p # ps \<Rightarrow> (c # p) # ps))"

text \<open>
  \<open>a || b\<close> where \<open>a\<close> is a string or \<open>undefined\<close> (\<open>None\<close>): \<open>undefined\<close> and the
  empty string are falsy.
\<close>

definition falsy :: "string option \<Rightarrow> bool" where
  "falsy a = (case a of None \<Rightarrow> True | Some s \<Rightarrow> s = [])"

definition or_string :: "string option \<Rightarrow> string \<Rightarrow> string" where
  "or_string a b = (case a of None \<Rightarrow> b | Some s \<Rightarrow> if s = [] then b else s)"

section \<open>Locator normalization\<close>

text \<open>
  \<^verbatim>\<open>const normalizeHref = (href?: string) => (href ? href.split('#')[0] : '');\<close>
  The split of a string is never empty; element 0 of an empty array would be
  \<open>undefined\<close>, which the model writes as the empty string of the else branch.
\<close>

definition normalizeHref :: "string option \<Rightarrow> string" where
  "normalizeHref href' =
     (case href' of
        None \<Rightarrow> []
      | Some h \<Rightarrow>
          if h = [] then []
          else (case split (CHR ''#'') h of [] \<Rightarrow> [] | p # ps \<Rightarrow> p))"

section \<open>Table of contents\<close>

text \<open>
  \<open>NavItem\<close> is the navigation entry of the rendering engine (identifier, target locator,
  label, optional children). \<open>TocEntry = NavItem & { depth: number }\<close> is the entry
  \<open>{ ...item, depth }\<close>: the item with its depth.
\<close>

datatype NavItem =
  NavItem (id': string) (href: string) (label: string) (subitems: "NavItem list option")

datatype TocEntry = TocEntry (item: NavItem) (depth: nat)

text \<open>
  \<^verbatim>\<open>
  const flatten = (items: NavItem[], depth = 0): TocEntry[] =>
    items.reduce<TocEntry[]>((acc, item) => {
      acc.push({ ...item, depth });
      if (item.subitems && item.subitems.length) {
        acc.push(...flatten(item.subitems, depth + 1));
      }
      return acc;
    }, []);
  \<close>
\<close>

function flatten :: "NavItem list \<Rightarrow> nat \<Rightarrow> TocEntry list" where
  "flatten items d =
     foldl (\<lambda>acc it.
        (let acc1 = acc @ [TocEntry it d]
         in (case subitems it of
               None \<Rightarrow> acc1
             | Some subs \<Rightarrow> if subs \<noteq> [] then acc1 @ flatten subs (d + 1) else acc1)))
       [] items"
  by pat_completeness auto
termination
proof (relation "measure (\<lambda>(items, d). size_list size items)", goal_cases)
  case 1
  show ?case by simp
next
  case (2 items d acc it acc1 subs)
  have "size_list size subs < size it"
    using 2(3) by (cases it) simp
  moreover have "size it \<le> size_list size items"
    using 2(1) by (simp add: size_list_estimation')
  ultimately show ?case by simp
qed

declare flatten.simps [simp del]

definition tocItems :: "NavItem list \<Rightarrow> TocEntry list" where
  "tocItems toc = flatten toc 0"

text \<open>The children of an entry, and the number of entries of a tree, over all levels.\<close>

definition children :: "NavItem \<Rightarrow> NavItem list" where
  "children it = (case subitems it of None \<Rightarrow> [] | Some subs \<Rightarrow> subs)"

fun node_count :: "NavItem \<Rightarrow> nat" and node_count_list :: "NavItem list \<Rightarrow> nat" where
  "node_count (NavItem i h l subs) =
     Suc (case subs of None \<Rightarrow> 0 | Some xs \<Rightarrow> node_count_list xs)"
| "node_count_list [] = 0"
| "node_count_list (x # xs) = node_count x + node_count_list xs"

text \<open>
  \<^verbatim>\<open>
  const resolveChapterTitle = useCallback((href?: string) => {
      if (!href || !tocItems.length) { return ''; }
      const normalized = normalizeHref(href);
      const match = tocItems.find((item) => normalizeHref(item.href) === normalized);
      return match?.label?.trim() || '';
    }, [tocItems]);
  \<close>
\<close>

definition resolveChapterTitle :: "TocEntry list \<Rightarrow> string option \<Rightarrow> string" where
  "resolveChapterTitle entries href' =
     (if falsy href' \<or> entries = [] then []
      else
        (let normalized = normalizeHref href';
             match = find (\<lambda>e. normalizeHref (Some (href (item e))) = normalized) entries
         in or_string (map_option (\<lambda>m. trim (label (item m))) match) []))"

section \<open>Font options\<close>

text \<open>
  The built-in font table. The presentational \<open>style\<close> of an option is read by no
  function modelled here and is left out.
\<close>

record FontOption =
  font_id :: string
  font_label :: string
  stack :: string

definition FONT_OPTIONS :: "FontOption list" where
  \<open>FONT_OPTIONS =
     [\<lparr>font_id = ''reader-sans'', font_label = ''Clean Sans'',
       stack = ''"Inter", "Segoe UI", system-ui, -apple-system, BlinkMacSystemFont, "Helvetica Neue", sans-serif''\<rparr>,
      \<lparr>font_id = ''reader-serif'', font_label = ''Bookish Serif'',
       stack = ''"Literata", "Merriweather", "Georgia", "Times New Roman", serif''\<rparr>,
      \<lparr>font_id = ''editorial-serif'', font_label = ''Editorial Serif'',
       stack = ''"Newsreader", "Iowan Old Style", "Baskerville", serif''\<rparr>,
      \<lparr>font_id = ''mono'', font_label = ''Mono'',
       stack = ''"IBM Plex Mono", "Source Code Pro", "SFMono-Regular", monospace''\<rparr>,
      \<lparr>font_id = ''reader-devanagari'', font_label = ''Harmony (English + Marathi + Hindi)'',
       stack = ''kalam''\<rparr>]\<close>

definition CUSTOM_FONT_ID :: string where
  "CUSTOM_FONT_ID = ''custom''"

definition DEFAULT_FONT_STACK :: string where
  "DEFAULT_FONT_STACK = stack (FONT_OPTIONS ! 0)"

text \<open>
  \<^verbatim>\<open>
  const activeFontStack = useMemo(() => {
    if (fontChoice === CUSTOM_FONT_ID) {
      return customFont.trim() || DEFAULT_FONT_STACK;
    }
    return FONT_OPTIONS.find((option) => option.id === fontChoice)?.stack || DEFAULT_FONT_STACK;
  }, [fontChoice, customFont]);
  \<close>
\<close>

definition activeFontStack :: "string \<Rightarrow> string \<Rightarrow> string" where
  "activeFontStack fontChoice customFont =
     (if fontChoice = CUSTOM_FONT_ID then or_string (Some (trim customFont)) DEFAULT_FONT_STACK
      else or_string (map_option stack (find (\<lambda>option. font_id option = fontChoice) FONT_OPTIONS))
             DEFAULT_FONT_STACK)"

section \<open>Reader state\<close>

text \<open>
  The state of the \<open>App\<close> component, one field per \<open>useState\<close>. A book or a rendition
  of the rendering engine is a handle. JavaScript numbers (progress, font size, line
  spacing) are values of a type \<open>'n\<close>; the two operations on them that the relocation
  handler uses, \<open>Number.isFinite(p)\<close> and \<open>Number((p * 100).toFixed(1))\<close>, are parameters
  of the handlers. Their binary64 instance is \<open>double_ops\<close> below.
\<close>

datatype ThemeName = Light | Sepia | Dark

type_synonym handle = nat

record 'n app_state =
  book :: "handle option"
  rendition :: "handle option"
  toc :: "NavItem list"
  progress :: 'n
  fontSize :: 'n
  theme :: ThemeName
  currentChapter :: string
  fileName :: string
  loading :: bool
  error :: "string option"
  fontChoice :: string
  customFont :: string
  lineSpacing :: 'n
  activeHref :: string

record 'n number_ops =
  isFinite :: "'n \<Rightarrow> bool"
  toPercent1 :: "'n \<Rightarrow> 'n"

section \<open>The rendering engine\<close>

text \<open>
  The engine (epubjs) is an external collaborator. Its state is the list of the handlers'
  commands that it has carried out, in order, the books and renditions that have been
  constructed and not yet destroyed, the next unused handle, and the size of the location
  index of each book. A call that throws or rejects is not in the list, and neither are
  the commands of the component's effects. Reads of the location index
  (\<open>locations.length()\<close>, \<open>cfiFromPercentage\<close>, \<open>percentageFromCfi\<close>) only query the
  engine and are not commands.
\<close>

datatype 'n engine_call =
    EPub handle
  | RenderTo handle handle
  | ThemesFontSize handle 'n
  | Display handle "string option"
  | Prev handle
  | Next handle
  | LocationsGenerate handle nat
  | RenditionDestroy handle
  | BookDestroy handle

record 'n engine =
  calls :: "'n engine_call list"
  live_books :: "handle list"
  live_renditions :: "handle list"
  fresh :: handle
  locations_length :: "handle \<Rightarrow> nat"

text \<open>
  The world: the component state, the engine, and whether the viewer element
  (\<open>viewerRef.current\<close>) is attached.
\<close>

record 'n world =
  app :: "'n app_state"
  engine :: "'n engine"
  viewer :: bool

definition call :: "'n engine_call \<Rightarrow> 'n world \<Rightarrow> 'n world" where
  "call c w = w\<lparr>engine := (engine w)\<lparr>calls := calls (engine w) @ [c]\<rparr>\<rparr>"

text \<open>\<open>ePub(source, { openAs: 'binary' })\<close>: a new book, with the index size the engine gives it.\<close>

definition ePub :: "nat \<Rightarrow> 'n world \<Rightarrow> handle \<times> 'n world" where
  "ePub n w =
     (let h = fresh (engine w)
      in (h, call (EPub h)
               (w\<lparr>engine := (engine w)\<lparr>live_books := live_books (engine w) @ [h],
                                        fresh := h + 1,
                                        locations_length := (locations_length (engine w))(h := n)\<rparr>\<rparr>)))"

text \<open>\<open>book.renderTo(viewerRef.current, ...)\<close>: a new rendition attached to the viewer.\<close>

definition renderTo :: "handle \<Rightarrow> 'n world \<Rightarrow> handle \<times> 'n world" where
  "renderTo b w =
     (let h = fresh (engine w)
      in (h, call (RenderTo b h)
               (w\<lparr>engine := (engine w)\<lparr>live_renditions := live_renditions (engine w) @ [h],
                                        fresh := h + 1\<rparr>\<rparr>)))"

definition themes_fontSize :: "handle \<Rightarrow> 'n \<Rightarrow> 'n world \<Rightarrow> 'n world" where
  "themes_fontSize r size' w = call (ThemesFontSize r size') w"

definition display :: "handle \<Rightarrow> string option \<Rightarrow> 'n world \<Rightarrow> 'n world" where
  "display r target w = call (Display r target) w"

definition locations_generate :: "handle \<Rightarrow> nat \<Rightarrow> nat \<Rightarrow> 'n world \<Rightarrow> 'n world" where
  "locations_generate b chars n w =
     call (LocationsGenerate b chars)
       (w\<lparr>engine := (engine w)\<lparr>locations_length := (locations_length (engine w))(b := n)\<rparr>\<rparr>)"

definition rendition_destroy :: "handle \<Rightarrow> 'n world \<Rightarrow> 'n world" where
  "rendition_destroy r w =
     call (RenditionDestroy r)
       (w\<lparr>engine := (engine w)\<lparr>live_renditions := removeAll r (live_renditions (engine w))\<rparr>\<rparr>)"

definition book_destroy :: "handle \<Rightarrow> 'n world \<Rightarrow> 'n world" where
  "book_destroy b w =
     call (BookDestroy b)
       (w\<lparr>engine := (engine w)\<lparr>live_books := removeAll b (live_books (engine w))\<rparr>\<rparr>)"

subsection \<open>State setters\<close>

definition setBook :: "handle option \<Rightarrow> 'n world \<Rightarrow> 'n world" where
  "setBook v w = w\<lparr>app := (app w)\<lparr>book := v\<rparr>\<rparr>"

definition setRendition :: "handle option \<Rightarrow> 'n world \<Rightarrow> 'n world" where
  "setRendition v w = w\<lparr>app := (app w)\<lparr>rendition := v\<rparr>\<rparr>"

definition setToc :: "NavItem list \<Rightarrow> 'n world \<Rightarrow> 'n world" where
  "setToc v w = w\<lparr>app := (app w)\<lparr>toc := v\<rparr>\<rparr>"

definition setProgress :: "'n \<Rightarrow> 'n world \<Rightarrow> 'n world" where
  "setProgress v w = w\<lparr>app := (app w)\<lparr>progress := v\<rparr>\<rparr>"

definition setFontSize :: "'n \<Rightarrow> 'n world \<Rightarrow> 'n world" where
  "setFontSize v w = w\<lparr>app := (app w)\<lparr>fontSize := v\<rparr>\<rparr>"

definition setTheme :: "ThemeName \<Rightarrow> 'n world \<Rightarrow> 'n world" where
  "setTheme v w = w\<lparr>app := (app w)\<lparr>theme := v\<rparr>\<rparr>"

definition setCurrentChapter :: "string \<Rightarrow> 'n world \<Rightarrow> 'n world" where
  "setCurrentChapter v w = w\<lparr>app := (app w)\<lparr>currentChapter := v\<rparr>\<rparr>"

definition setFileName :: "string \<Rightarrow> 'n world \<Rightarrow> 'n world" where
  "setFileName v w = w\<lparr>app := (app w)\<lparr>fileName := v\<rparr>\<rparr>"

definition setLoading :: "bool \<Rightarrow> 'n world \<Rightarrow> 'n world" where
  "setLoading v w = w\<lparr>app := (app w)\<lparr>loading := v\<rparr>\<rparr>"

definition setError :: "string option \<Rightarrow> 'n world \<Rightarrow> 'n world" where
  "setError v w = w\<lparr>app := (app w)\<lparr>error := v\<rparr>\<rparr>"

definition setFontChoice :: "string \<Rightarrow> 'n world \<Rightarrow> 'n world" where
  "setFontChoice v w = w\<lparr>app := (app w)\<lparr>fontChoice := v\<rparr>\<rparr>"

definition setCustomFont :: "string \<Rightarrow> 'n world \<Rightarrow> 'n world" where
  "setCustomFont v w = w\<lparr>app := (app w)\<lparr>customFont := v\<rparr>\<rparr>"

definition setLineSpacing :: "'n \<Rightarrow> 'n world \<Rightarrow> 'n world" where
  "setLineSpacing v w = w\<lparr>app := (app w)\<lparr>lineSpacing := v\<rparr>\<rparr>"

definition setActiveHref :: "string \<Rightarrow> 'n world \<Rightarrow> 'n world" where
  "setActiveHref v w = w\<lparr>app := (app w)\<lparr>activeHref := v\<rparr>\<rparr>"

section \<open>Session lifecycle\<close>

text \<open>
  \<^verbatim>\<open>
  const destroyCurrentBook = useCallback(async () => {
    if (rendition) { rendition.destroy(); setRendition(null); }
    if (book) { await book.destroy(); setBook(null); }
  }, [book, rendition]);
  \<close>
  A \<open>useCallback\<close> closure reads the \<open>book\<close> and \<open>rendition\<close> of the render that created
  it, not the state at the time it runs: they are the arguments \<open>book'\<close> and \<open>rendition'\<close>.
\<close>

definition destroyCurrentBook :: "handle option \<Rightarrow> handle option \<Rightarrow> 'n world \<Rightarrow> 'n world" where
  "destroyCurrentBook book' rendition' w =
     (let w1 = (case rendition' of None \<Rightarrow> w
                | Some r \<Rightarrow> setRendition None (rendition_destroy r w));
          w2 = (case book' of None \<Rightarrow> w1
                | Some b \<Rightarrow> setBook None (book_destroy b w1))
      in w2)"

text \<open>
  How the engine answers the calls of one load: the call that throws or rejects, if any,
  the navigation tree of the book, the size of its location index before and after
  generation.
\<close>

datatype load_step =
  AtEPub | AtRenderTo | AtThemesFontSize | AtDisplay | AtNavigation | AtReady
  | AtLocationsLength | AtGenerate

record engine_reply =
  throws_at :: "load_step option"
  navigation_toc :: "NavItem list"
  locations_initial :: nat
  locations_generated :: nat

text \<open>
  The \<open>try\<close> block of \<open>initialiseBook\<close>; the result says whether it threw, and gives the
  world at that point. A call that throws has no effect on the engine.
  \<^verbatim>\<open>
  const nextBook = ePub(source, { openAs: 'binary' });
  const nextRendition = nextBook.renderTo(viewerRef.current, { ... });
  nextRendition.themes.fontSize(`${fontSize}%`);
  setBook(nextBook);
  setRendition(nextRendition);
  setFileName(name);
  await nextRendition.display();
  const navigation = await nextBook.loaded.navigation;
  setToc(navigation.toc);
  await nextBook.ready;
  if (!nextBook.locations.length()) {
    await nextBook.locations.generate(1200);
  }
  \<close>
\<close>

definition load_try :: "engine_reply \<Rightarrow> 'n \<Rightarrow> string \<Rightarrow> 'n world \<Rightarrow> bool \<times> 'n world" where
  "load_try reply fontSize' name w0 =
     (if throws_at reply = Some AtEPub then (True, w0) else
      let (nextBook, w1) = ePub (locations_initial reply) w0 in
      if throws_at reply = Some AtRenderTo then (True, w1) else
      let (nextRendition, w2) = renderTo nextBook w1 in
      if throws_at reply = Some AtThemesFontSize then (True, w2) else
      let w3 = themes_fontSize nextRendition fontSize' w2;
          w4 = setBook (Some nextBook) w3;
          w5 = setRendition (Some nextRendition) w4;
          w6 = setFileName name w5 in
      if throws_at reply = Some AtDisplay then (True, w6) else
      let w7 = display nextRendition None w6 in
      if throws_at reply = Some AtNavigation then (True, w7) else
      let w8 = setToc (navigation_toc reply) w7 in
      if throws_at reply = Some AtReady then (True, w8) else
      if throws_at reply = Some AtLocationsLength then (True, w8) else
      if locations_length (engine w8) nextBook = 0 then
        (if throws_at reply = Some AtGenerate then (True, w8)
         else (False, locations_generate nextBook 1200 (locations_generated reply) w8))
      else (False, w8))"

text \<open>
  \<^verbatim>\<open>
  const initialiseBook = useCallback(async (source, name) => {
      if (!viewerRef.current) { return; }
      setLoading(true); setError(null); setProgress(0);
      setCurrentChapter(''); setToc([]); setActiveHref('');
      await destroyCurrentBook();
      try { ... } catch (err) {
        console.error(err);
        setError('We could not open that EPUB. Please try a different file.');
        setFileName(''); setToc([]); setProgress(0);
        setCurrentChapter(''); setActiveHref('');
        await destroyCurrentBook();
      } finally { setLoading(false); }
    }, [destroyCurrentBook, fontSize]);
  \<close>
  Both calls of \<open>destroyCurrentBook\<close> are calls of the one closure that \<open>initialiseBook\<close>
  captured, so both read the same \<open>book'\<close> and \<open>rendition'\<close>.
\<close>

definition initialiseBook ::
  "handle option \<Rightarrow> handle option \<Rightarrow> 'n::zero \<Rightarrow> engine_reply \<Rightarrow> string \<Rightarrow> 'n world \<Rightarrow> 'n world" where
  "initialiseBook book' rendition' fontSize' reply name w =
     (if \<not> viewer w then w
      else
        let w1 = setLoading True w;
            w2 = setError None w1;
            w3 = setProgress 0 w2;
            w4 = setCurrentChapter [] w3;
            w5 = setToc [] w4;
            w6 = setActiveHref [] w5;
            w7 = destroyCurrentBook book' rendition' w6;
            (threw, w8) = load_try reply fontSize' name w7;
            w9 = (if threw then
                    let c1 = setError (Some ''We could not open that EPUB. Please try a different file.'') w8;
                        c2 = setFileName [] c1;
                        c3 = setToc [] c2;
                        c4 = setProgress 0 c3;
                        c5 = setCurrentChapter [] c4;
                        c6 = setActiveHref [] c5
                    in destroyCurrentBook book' rendition' c6
                  else w8)
        in setLoading False w9)"

text \<open>
  A file is given by its name and by how the engine answers for its content. The handler
  of the last render calls the \<open>initialiseBook\<close> of that render, whose closure holds the
  \<open>book\<close>, \<open>rendition\<close> and \<open>fontSize\<close> of the state the handler is invoked in.
  \<^verbatim>\<open>
  const handleFileSelection = async (files: FileList | null) => {
    const file = files?.[0];
    if (!file) { return; }
    const buffer = await file.arrayBuffer();
    await initialiseBook(buffer, file.name);
  };
  \<close>
\<close>

definition handleFileSelection :: "(engine_reply \<times> string) option \<Rightarrow> 'n::zero world \<Rightarrow> 'n world" where
  "handleFileSelection file w =
     (case file of
        None \<Rightarrow> w
      | Some (reply, name) \<Rightarrow>
          initialiseBook (book (app w)) (rendition (app w)) (fontSize (app w)) reply name w)"

section \<open>Navigation and progress\<close>

text \<open>
  An asynchronous handler either resolves or rejects; in both cases the world is the one
  it has reached. The argument \<open>ok\<close> says whether the engine call of the handler resolves.
\<close>

datatype 'a completion = Resolved 'a | Rejected 'a

fun outcome :: "'a completion \<Rightarrow> 'a" where
  "outcome (Resolved w) = w"
| "outcome (Rejected w) = w"

text \<open>
  \<^verbatim>\<open>
  const goTo = useCallback(async (href: string) => {
      if (!rendition) { return; }
      setActiveHref(normalizeHref(href));
      await rendition.display(href);
    }, [rendition]);
  \<close>
\<close>

definition goTo :: "bool \<Rightarrow> string \<Rightarrow> 'n world \<Rightarrow> 'n world completion" where
  "goTo ok href' w =
     (case rendition (app w) of
        None \<Rightarrow> Resolved w
      | Some r \<Rightarrow>
          let w1 = setActiveHref (normalizeHref (Some href')) w
          in if ok then Resolved (display r (Some href') w1) else Rejected w1)"

text \<open>
  \<^verbatim>\<open>
  const goPrevious = useCallback(async () => {
    if (!rendition) { return; }
    await rendition.prev();
  }, [rendition]);
  const goNext = useCallback(async () => {
    if (!rendition) { return; }
    await rendition.next();
  }, [rendition]);
  \<close>
\<close>

definition goPrevious :: "bool \<Rightarrow> 'n world \<Rightarrow> 'n world completion" where
  "goPrevious ok w =
     (case rendition (app w) of
        None \<Rightarrow> Resolved w
      | Some r \<Rightarrow> if ok then Resolved (call (Prev r) w) else Rejected w)"

definition goNext :: "bool \<Rightarrow> 'n world \<Rightarrow> 'n world completion" where
  "goNext ok w =
     (case rendition (app w) of
        None \<Rightarrow> Resolved w
      | Some r \<Rightarrow> if ok then Resolved (call (Next r) w) else Rejected w)"

text \<open>
  \<^verbatim>\<open>
  const handleProgressChange = useCallback(async (event) => {
      if (!book || !rendition || !book.locations.length()) { return; }
      const value = Number(event.target.value);
      setProgress(value);
      const cfi = book.locations.cfiFromPercentage(value / 100);
      await rendition.display(cfi);
    }, [book, rendition]);
  \<close>
  \<open>cfi\<close> is the engine's answer to \<open>cfiFromPercentage(value / 100)\<close>.
\<close>

definition handleProgressChange :: "bool \<Rightarrow> 'n \<Rightarrow> string \<Rightarrow> 'n world \<Rightarrow> 'n world completion" where
  "handleProgressChange ok v cfi w =
     (case book (app w) of
        None \<Rightarrow> Resolved w
      | Some b \<Rightarrow>
          (case rendition (app w) of
             None \<Rightarrow> Resolved w
           | Some r \<Rightarrow>
               if locations_length (engine w) b = 0 then Resolved w
               else
                 let w1 = setProgress v w
                 in if ok then Resolved (display r (Some cfi) w1) else Rejected w1))"

text \<open>
  The relocation event carries an optional location, whose optional start has an
  optional href and a cfi.
  \<^verbatim>\<open>
  const onRelocated = (location?: Location) => {
    if (!location?.start) { return; }
    const href = normalizeHref((location.start as any)?.href as string | undefined);
    setActiveHref(href);
    const nextChapter = resolveChapterTitle(href);
    setCurrentChapter(nextChapter);
    if (book.locations.length()) {
      const percentage = book.locations.percentageFromCfi(location.start.cfi);
      const normalized = Number.isFinite(percentage)
        ? Number((percentage * 100).toFixed(1))
        : 0;
      setProgress(normalized);
    }
  };
  \<close>
  \<open>percentage\<close> is the engine's answer to \<open>percentageFromCfi(location.start.cfi)\<close>; \<open>book'\<close>
  is the book of the closure.
\<close>

record DisplayedLocation =
  start_href :: "string option"
  start_cfi :: string

datatype Location = Location (start: "DisplayedLocation option")

definition onRelocated ::
  "'n number_ops \<Rightarrow> handle \<Rightarrow> Location option \<Rightarrow> 'n::zero \<Rightarrow> 'n world \<Rightarrow> 'n world" where
  "onRelocated ops book' location percentage w =
     (case location of
        None \<Rightarrow> w
      | Some l \<Rightarrow>
          (case start l of
             None \<Rightarrow> w
           | Some st \<Rightarrow>
               let href' = normalizeHref (start_href st);
                   w1 = setActiveHref href' w;
                   nextChapter = resolveChapterTitle (tocItems (toc (app w))) (Some href');
                   w2 = setCurrentChapter nextChapter w1
               in if locations_length (engine w2) book' \<noteq> 0
                  then
                    let normalized =
                          (if isFinite ops percentage then toPercent1 ops percentage else 0)
                    in setProgress normalized w2
                  else w2))"

text \<open>
  The handler is subscribed only while a book and a rendition are published:
  \<^verbatim>\<open>
  useEffect(() => {
    if (!book || !rendition) { return; }
    ...
    rendition.on('relocated', onRelocated);
    return () => { rendition.off('relocated', onRelocated); };
  }, [book, rendition, resolveChapterTitle]);
  \<close>
\<close>

definition relocated ::
  "'n number_ops \<Rightarrow> Location option \<Rightarrow> 'n::zero \<Rightarrow> 'n world \<Rightarrow> 'n world" where
  "relocated ops location percentage w =
     (case book (app w) of
        None \<Rightarrow> w
      | Some b \<Rightarrow>
          (case rendition (app w) of
             None \<Rightarrow> w
           | Some r \<Rightarrow> onRelocated ops b location percentage w))"

section \<open>Events\<close>

text \<open>
  The user's actions and the engine's relocation events, and the component run from its
  initial state. The setters of the typography controls are the handlers
  \<open>handleFontSizeChange\<close>, \<open>handleThemeChange\<close>, \<open>handleFontChoiceChange\<close>,
  \<open>handleCustomFontChange\<close> and \<open>handleLineSpacingChange\<close>.

  A handler runs to its end before the next event, with the closures of the state it is
  invoked in. The effects that run when React commits a render depend on the commit
  schedule and are outside the model: the font size and the theme pushed into the
  rendition, and the teardown effect, whose cleanup runs the \<open>destroyCurrentBook\<close> of the
  previous render again whenever the book or the rendition has changed (and so also
  destroys a published session after a later change). \<open>step\<close> and \<open>run\<close> therefore give
  the states that the handlers alone produce; of the effects only the subscription of the
  relocation handler is modelled, as the guard of \<open>relocated\<close>. None of the omitted
  effects writes a field other than \<open>book\<close> and \<open>rendition\<close>.
\<close>

datatype 'n event =
    SelectFile "(engine_reply \<times> string) option"
  | ClickToc bool string
  | ClickPrevious bool
  | ClickNext bool
  | ProgressChange bool 'n string
  | Relocated "Location option" 'n
  | FontSizeChange 'n
  | ThemeChange ThemeName
  | FontChoiceChange string
  | CustomFontChange string
  | LineSpacingChange 'n

fun step :: "'n number_ops \<Rightarrow> 'n::zero event \<Rightarrow> 'n world \<Rightarrow> 'n world" where
  "step ops (SelectFile file) w = handleFileSelection file w"
| "step ops (ClickToc ok h) w = outcome (goTo ok h w)"
| "step ops (ClickPrevious ok) w = outcome (goPrevious ok w)"
| "step ops (ClickNext ok) w = outcome (goNext ok w)"
| "step ops (ProgressChange ok v cfi) w = outcome (handleProgressChange ok v cfi w)"
| "step ops (Relocated location percentage) w = relocated ops location percentage w"
| "step ops (FontSizeChange v) w = setFontSize v w"
| "step ops (ThemeChange v) w = setTheme v w"
| "step ops (FontChoiceChange v) w = setFontChoice v w"
| "step ops (CustomFontChange v) w = setCustomFont v w"
| "step ops (LineSpacingChange v) w = setLineSpacing v w"

definition run :: "'n number_ops \<Rightarrow> 'n::zero event list \<Rightarrow> 'n world \<Rightarrow> 'n world" where
  "run ops events w = foldl (\<lambda>w' e. step ops e w') w events"

definition initial_app :: "'n::{zero,numeral} app_state" where
  "initial_app =
     \<lparr>book = None, rendition = None, toc = [], progress = 0, fontSize = 110,
      theme = Light, currentChapter = [], fileName = [], loading = False, error = None,
      fontChoice = font_id (FONT_OPTIONS ! 0), customFont = [], lineSpacing = 150,
      activeHref = []\<rparr>"

definition initial_engine :: "'n engine" where
  "initial_engine =
     \<lparr>calls = [], live_books = [], live_renditions = [], fresh = 0,
      locations_length = (\<lambda>h. 0)\<rparr>"

definition initial_world :: "'n::{zero,numeral} world" where
  "initial_world = \<lparr>app = initial_app, engine = initial_engine, viewer = True\<rparr>"

section \<open>JavaScript numbers\<close>

text \<open>
  A JavaScript number is a binary64 value: a rational, \<open>NaN\<close>, or an infinity (the two
  zeros are identified). \<open>round_double\<close> is the rounding of a rational to binary64, to the
  nearest value with ties to the even significand: the significand has 53 bits, the
  binade of the smallest normal number is \<open>- 1022\<close> (below it the spacing stays
  \<open>2 powi - 1074\<close>), and a result of \<open>2 powi 1024\<close> or more is an infinity. \<open>exponent a\<close> is
  the binade of a positive \<open>a\<close>, the \<open>e\<close> with \<open>2 powi e \<le> a < 2 powi (e + 1)\<close>.
\<close>

datatype number = Finite rat | NaN | PosInfinity | NegInfinity

instantiation number :: zero
begin

definition zero_number :: number where
  "zero_number = Finite 0"

instance ..

end

definition exponent :: "rat \<Rightarrow> int" where
  "exponent a = (if 1 \<le> a then bitlen \<lfloor>a\<rfloor> - 1 else - bitlen (\<lceil>1 / a\<rceil> - 1))"

definition round_half_even :: "rat \<Rightarrow> int" where
  "round_half_even x =
     (let f = \<lfloor>x\<rfloor>; r = x - of_int f
      in if r < 1 / 2 then f else if 1 / 2 < r then f + 1 else if even f then f else f + 1)"

definition round_double :: "rat \<Rightarrow> number" where
  "round_double q =
     (if q = 0 then Finite 0
      else
        let a = \<bar>q\<bar>;
            e = max (exponent a) (- 1022);
            quantum = 2 powi (e - 52);
            v = of_int (round_half_even (a / quantum)) * quantum
        in if 2 powi 1024 \<le> v then (if 0 < q then PosInfinity else NegInfinity)
           else Finite (if 0 < q then v else - v))"

text \<open>\<open>Number.isFinite(p)\<close>, and the product \<open>p * 100\<close>, correctly rounded.\<close>

definition Number_isFinite :: "number \<Rightarrow> bool" where
  "Number_isFinite p = (case p of Finite x \<Rightarrow> True | _ \<Rightarrow> False)"

definition times100 :: "number \<Rightarrow> number" where
  "times100 p = (case p of Finite q \<Rightarrow> round_double (q * 100) | _ \<Rightarrow> p)"

text \<open>
  \<open>Number(x.toFixed(1))\<close>. For a finite \<open>x\<close> below \<open>10 ^ 21\<close> in magnitude, \<open>toFixed(1)\<close> is
  the decimal string of \<open>n / 10\<close> for the integer \<open>n\<close> with \<open>n / 10\<close> closest to the magnitude of
  \<open>x\<close>, the larger \<open>n\<close> of two, with the sign of \<open>x\<close>; \<open>nearest_tenth x\<close> is the number that
  string denotes, and \<open>Number\<close> rounds it to binary64. From \<open>10 ^ 21\<close> on, and for \<open>NaN\<close> and
  the infinities, \<open>toFixed\<close> gives the string of the number itself, which \<open>Number\<close> reads
  back as that number.
\<close>

definition nearest_tenth :: "rat \<Rightarrow> rat" where
  "nearest_tenth x =
     (if x < 0 then - (of_int \<lfloor>10 * (- x) + 1 / 2\<rfloor> / 10) else of_int \<lfloor>10 * x + 1 / 2\<rfloor> / 10)"

definition Number_toFixed1 :: "number \<Rightarrow> number" where
  "Number_toFixed1 p =
     (case p of
        Finite x \<Rightarrow> if 10 ^ 21 \<le> \<bar>x\<bar> then Finite x else round_double (nearest_tenth x)
      | _ \<Rightarrow> p)"

text \<open>The operations of the relocation handler on binary64 numbers.\<close>

definition double_ops :: "number number_ops" where
  "double_ops =
     \<lparr>isFinite = Number_isFinite, toPercent1 = (\<lambda>p. Number_toFixed1 (times100 p))\<rparr>"

section \<open>Notions of the specification and example data\<close>

text \<open>
  The specification's normalization of a locator: the prefix before the first \<open>#\<close>.
\<close>

definition strip_fragment :: "string \<Rightarrow> string" where
  "strip_fragment s = takeWhile (\<lambda>c. c \<noteq> CHR ''#'') s"

text \<open>The flattened entries of the specification's chapter-resolution example.\<close>

definition spec_entries :: "TocEntry list" where
  "spec_entries =
     [TocEntry (NavItem ''n1'' ''a.xhtml'' ''Intro'' None) 0,
      TocEntry (NavItem ''n2'' ''b.xhtml#x'' ''Ch1'' None) 0]"

text \<open>A navigation tree with two chapters, the second with a section and a subsection.\<close>

definition example_toc :: "NavItem list" where
  "example_toc =
     [NavItem ''n1'' ''a.xhtml'' ''Intro'' None,
      NavItem ''n2'' ''b.xhtml'' ''Ch1''
        (Some [NavItem ''n3'' ''b.xhtml#s1'' ''Section'' (Some [NavItem ''n4'' ''b.xhtml#s1a'' ''Sub'' (Some [])]),
               NavItem ''n5'' ''b.xhtml#s2'' ''Section 2'' None])]"

text \<open>
  Worlds without a book, and with a published book whose location index is empty;
  number operations for the examples; engine answers for a book that loads.
\<close>

definition no_book_world :: "int world" where
  "no_book_world = initial_world"

definition no_index_world :: "int world" where
  "no_index_world =
     \<lparr>app = initial_app\<lparr>book := Some 0, rendition := Some 1, progress := 42\<rparr>,
      engine = initial_engine\<lparr>live_books := [0], live_renditions := [1], fresh := 2\<rparr>,
      viewer = True\<rparr>"

definition plain_ops :: "int number_ops" where
  "plain_ops = \<lparr>isFinite = (\<lambda>p. True), toPercent1 = (\<lambda>p. p)\<rparr>"

definition good_reply :: engine_reply where
  "good_reply =
     \<lparr>throws_at = None, navigation_toc = example_toc, locations_initial = 0,
      locations_generated = 12\<rparr>"

text \<open>A world with a published book whose location index has 12 entries.\<close>

definition indexed_world :: "number world" where
  "indexed_world =
     \<lparr>app = \<lparr>book = Some 0, rendition = Some 1, toc = example_toc, progress = Finite 42,
              fontSize = Finite 110, theme = Light, currentChapter = [], fileName = ''book.epub'',
              loading = False, error = None, fontChoice = ''reader-sans'', customFont = [],
              lineSpacing = Finite 150, activeHref = []\<rparr>,
      engine = \<lparr>calls = [], live_books = [0], live_renditions = [1], fresh = 2,
                 locations_length = (\<lambda>h. if h = 0 then 12 else 0)\<rparr>,
      viewer = True\<rparr>"

text \<open>Engine answers for a book whose initial display rejects, and for one where
  setting the font size of the new rendition throws.\<close>

definition display_fails :: engine_reply where
  "display_fails = good_reply\<lparr>throws_at := Some AtDisplay\<rparr>"

definition fontSize_fails :: engine_reply where
  "fontSize_fails = good_reply\<lparr>throws_at := Some AtThemesFontSize\<rparr>"

text \<open>
  Whether the \<open>try\<close> block throws for an engine answer: the call named by \<open>throws_at\<close>
  is reached, which for index generation needs the index to be empty.
\<close>

definition load_throws :: "engine_reply \<Rightarrow> bool" where
  "load_throws reply =
     (case throws_at reply of
        None \<Rightarrow> False
      | Some s \<Rightarrow> if s = AtGenerate then locations_initial reply = 0 else True)"

section \<open>Properties of locator normalization\<close>

lemma split_nonempty: "split sep s \<noteq> []"
  by (induction s) (auto split: list.splits)

lemma split_first_piece: "split sep s = p # ps \<Longrightarrow> p = takeWhile (\<lambda>c. c \<noteq> sep) s"
  by (induction s arbitrary: p ps) (auto simp: split_nonempty split: if_splits list.splits)

lemma normalizeHref_Some: "normalizeHref (Some h) = takeWhile (\<lambda>c. c \<noteq> CHR ''#'') h"
proof (cases "split (CHR ''#'') h")
  case Nil
  then show ?thesis by (simp add: split_nonempty)
next
  case (Cons p ps)
  then show ?thesis
    using split_first_piece [OF Cons] by (simp add: normalizeHref_def)
qed

lemma normalizeHref_None: "normalizeHref None = []"
  by (simp add: normalizeHref_def)

lemma normalizeHref_no_hash: "CHR ''#'' \<notin> set (normalizeHref x)"
proof (cases x)
  case None
  then show ?thesis by (simp add: normalizeHref_None)
next
  case (Some h)
  have "\<forall>c \<in> set (takeWhile (\<lambda>c. c \<noteq> CHR ''#'') h). c \<noteq> CHR ''#''"
    by (auto dest: set_takeWhileD)
  then show ?thesis
    using Some by (auto simp: normalizeHref_Some)
qed

text \<open>
  C5: locator normalization is idempotent, \<open>normalize(normalize(x)) = normalize(x)\<close> for
  every argument (a string or \<open>undefined\<close>); \<open>normalize("chap3.xhtml#section2")\<close> is
  \<open>"chap3.xhtml"\<close> and \<open>normalize("")\<close> is \<open>""\<close>.
\<close>

theorem normalizeHref_idempotent:
  "normalizeHref (Some (normalizeHref x)) = normalizeHref x
   \<and> normalizeHref (Some ''chap3.xhtml#section2'') = ''chap3.xhtml''
   \<and> normalizeHref (Some '''') = ''''"
proof -
  have "takeWhile (\<lambda>c. c \<noteq> CHR ''#'') (normalizeHref x) = normalizeHref x"
    using normalizeHref_no_hash [of x] by (intro takeWhile_eq_all_conv [THEN iffD2]) auto
  then have "normalizeHref (Some (normalizeHref x)) = normalizeHref x"
    by (simp add: normalizeHref_Some)
  moreover have "normalizeHref (Some ''chap3.xhtml#section2'') = ''chap3.xhtml''"
    by (simp add: normalizeHref_Some)
  moreover have "normalizeHref (Some '''') = ''''"
    by (simp add: normalizeHref_Some)
  ultimately show ?thesis by simp
qed

section \<open>Properties of the flattened table of contents\<close>

lemma flatten_Nil: "flatten [] d = []"
  by (simp add: flatten.simps)

lemma foldl_append_acc:
  "foldl (\<lambda>acc it. acc @ g it) a xs = a @ concat (map g xs)"
  by (induction xs arbitrary: a) auto

lemma flatten_concat:
  "flatten items d =
     concat (map (\<lambda>it. TocEntry it d # flatten (children it) (d + 1)) items)"
proof -
  have body: "(\<lambda>acc it.
        (let acc1 = acc @ [TocEntry it d]
         in (case subitems it of
               None \<Rightarrow> acc1
             | Some subs \<Rightarrow> if subs \<noteq> [] then acc1 @ flatten subs (d + 1) else acc1)))
     = (\<lambda>acc it. acc @ (TocEntry it d # flatten (children it) (d + 1)))"
    by (auto simp: fun_eq_iff children_def flatten_Nil Let_def split: option.splits)
  show ?thesis
    by (subst flatten.simps) (simp only: body foldl_append_acc append_Nil)
qed

lemma flatten_Cons:
  "flatten (it # rest) d = TocEntry it d # flatten (children it) (d + 1) @ flatten rest d"
  by (simp add: flatten_concat [of "it # rest"] flatten_concat [of rest])

lemma length_flatten:
  fixes it :: NavItem and items :: "NavItem list"
  shows "length (flatten (children it) d) + 1 = node_count it"
    and "length (flatten items d) = node_count_list items"
proof (induction it and items arbitrary: d and d rule: node_count_node_count_list.induct)
  case (1 i h l subs)
  then show ?case by (cases subs) (auto simp: children_def flatten_Nil)
next
  case 2
  then show ?case by (simp add: flatten_Nil)
next
  case (3 x xs)
  then show ?case
    using "3.IH"(1) [of "d + 1"] by (simp add: flatten_Cons)
qed

lemma depth_flatten_ge: "e \<in> set (flatten items d) \<Longrightarrow> d \<le> depth e"
proof (induction items d arbitrary: e rule: flatten.induct)
  case (1 items d)
  from "1.prems" obtain it where it: "it \<in> set items"
    and e: "e = TocEntry it d \<or> e \<in> set (flatten (children it) (d + 1))"
    by (auto simp: flatten_concat [of items])
  show ?case
  proof (cases "e = TocEntry it d")
    case True
    then show ?thesis by simp
  next
    case False
    with e have mem: "e \<in> set (flatten (children it) (d + 1))" by simp
    then have "children it \<noteq> []" by (auto simp: flatten_Nil)
    then obtain subs where "subitems it = Some subs" "subs \<noteq> []" "children it = subs"
      by (auto simp: children_def split: option.splits)
    with "1.IH" [OF it refl this(1) this(2)] mem have "d + 1 \<le> depth e" by simp
    then show ?thesis by simp
  qed
qed

lemma filter_depth_flatten:
  "filter (\<lambda>e. depth e = d) (flatten items d) = map (\<lambda>it. TocEntry it d) items"
proof (induction items)
  case Nil
  then show ?case by (simp add: flatten_Nil)
next
  case (Cons it rest)
  have "\<forall>e \<in> set (flatten (children it) (d + 1)). depth e \<noteq> d"
    using depth_flatten_ge [of _ "children it" "d + 1"] by fastforce
  then have "filter (\<lambda>e. depth e = d) (flatten (children it) (d + 1)) = []"
    by (simp add: filter_empty_conv)
  with Cons show ?case by (simp add: flatten_Cons)
qed

text \<open>
  C3: for every navigation tree, flattening is a pre-order traversal. The number of
  entries is the number of nodes over all levels. An entry is followed by the
  flattening of its children, one level deeper (depth of the parent plus 1), and then by
  its later siblings. The entries of depth 0 are exactly the top-level entries, and the
  entries one level below an entry are exactly its children, both in the order of the
  source tree.
\<close>

theorem flatten_preorder:
  "length (tocItems tree) = node_count_list tree
   \<and> filter (\<lambda>e. depth e = 0) (tocItems tree) = map (\<lambda>it. TocEntry it 0) tree
   \<and> flatten [] d = []
   \<and> flatten (it # rest) d = TocEntry it d # flatten (children it) (d + 1) @ flatten rest d
   \<and> filter (\<lambda>e. depth e = d + 1) (flatten (children it) (d + 1)) =
       map (\<lambda>c. TocEntry c (d + 1)) (children it)"
proof -
  have "length (tocItems tree) = node_count_list tree"
    by (simp add: tocItems_def length_flatten(2))
  moreover have "filter (\<lambda>e. depth e = 0) (tocItems tree) = map (\<lambda>it. TocEntry it 0) tree"
    by (simp add: tocItems_def filter_depth_flatten)
  ultimately show ?thesis
    by (simp add: flatten_Nil flatten_Cons filter_depth_flatten)
qed

lemma tocItems_example:
  "map (\<lambda>e. (label (item e), depth e)) (tocItems example_toc) =
     [(''Intro'', 0), (''Ch1'', 0), (''Section'', 1), (''Sub'', 2), (''Section 2'', 1)]"
  by (simp add: tocItems_def example_toc_def flatten_Cons flatten_Nil children_def)

section \<open>Properties of chapter resolution\<close>

lemma find_first_match:
  "\<forall>e \<in> set pre. \<not> P e \<Longrightarrow> P m \<Longrightarrow> find P (pre @ m # post) = Some m"
  by (induction pre) auto

lemma find_no_match: "\<forall>e \<in> set xs. \<not> P e \<Longrightarrow> find P xs = None"
  by (induction xs) auto

text \<open>
  C4: the chapter title of a locator. The result is empty when the locator is undefined
  or empty and when there are no entries. Otherwise the locator and the locators of the
  entries are normalized to their prefix before the first \<open>#\<close>; when no entry's
  normalized locator is equal to the normalized locator the result is empty (there is no
  other fallback), and otherwise it is the trimmed label of the first entry that is
  equal.
\<close>

theorem resolveChapterTitle_exact_match:
  "resolveChapterTitle entries None = []
   \<and> resolveChapterTitle entries (Some []) = []
   \<and> resolveChapterTitle [] loc = []
   \<and> ((\<forall>e \<in> set entries. strip_fragment (href (item e)) \<noteq> strip_fragment l)
        \<longrightarrow> resolveChapterTitle entries (Some l) = [])
   \<and> (l \<noteq> [] \<and> entries = pre @ m # post
        \<and> (\<forall>e \<in> set pre. strip_fragment (href (item e)) \<noteq> strip_fragment l)
        \<and> strip_fragment (href (item m)) = strip_fragment l
        \<longrightarrow> resolveChapterTitle entries (Some l) = trim (label (item m)))"
proof -
  have none: "resolveChapterTitle entries None = []"
    by (simp add: resolveChapterTitle_def falsy_def)
  have empty: "resolveChapterTitle entries (Some []) = []"
    by (simp add: resolveChapterTitle_def falsy_def)
  have no_toc: "resolveChapterTitle [] loc = []"
    by (simp add: resolveChapterTitle_def)
  have miss: "resolveChapterTitle entries (Some l) = []"
    if "\<forall>e \<in> set entries. strip_fragment (href (item e)) \<noteq> strip_fragment l"
  proof -
    have "find (\<lambda>e. normalizeHref (Some (href (item e))) = normalizeHref (Some l)) entries = None"
      using that by (intro find_no_match) (simp add: normalizeHref_Some strip_fragment_def)
    then show ?thesis
      by (simp add: resolveChapterTitle_def or_string_def)
  qed
  have hit: "resolveChapterTitle entries (Some l) = trim (label (item m))"
    if "l \<noteq> []" and "entries = pre @ m # post"
      and "\<forall>e \<in> set pre. strip_fragment (href (item e)) \<noteq> strip_fragment l"
      and "strip_fragment (href (item m)) = strip_fragment l"
  proof -
    have "find (\<lambda>e. normalizeHref (Some (href (item e))) = normalizeHref (Some l)) (pre @ m # post)
            = Some m"
      using that(3,4) by (intro find_first_match) (simp_all add: normalizeHref_Some strip_fragment_def)
    then show ?thesis
      using that(1,2) by (simp add: resolveChapterTitle_def or_string_def falsy_def)
  qed
  from none empty no_toc miss hit show ?thesis by blast
qed

theorem resolveChapterTitle_exact_match_witness:
  "resolveChapterTitle spec_entries (Some ''b.xhtml#y'') = ''Ch1''
   \<and> resolveChapterTitle spec_entries (Some ''missing.xhtml'') = ''''
   \<and> resolveChapterTitle spec_entries (Some '''') = ''''"
  using resolveChapterTitle_exact_match
    [where entries = spec_entries and l = "''b.xhtml#y''"
       and pre = "[TocEntry (NavItem ''n1'' ''a.xhtml'' ''Intro'' None) 0]"
       and m = "TocEntry (NavItem ''n2'' ''b.xhtml#x'' ''Ch1'' None) 0" and post = "[]"]
    resolveChapterTitle_exact_match [where entries = spec_entries and l = "''missing.xhtml''"]
  by (simp add: spec_entries_def strip_fragment_def trim_def js_whitespace_def)

section \<open>Properties of font-stack resolution\<close>

text \<open>
  C7: with the custom option selected, the font stack is the trimmed custom text when
  that is not empty and the stack of the first built-in option otherwise; with the id of
  a built-in option selected it is the stack of that option; with any other id it is the
  stack of the first built-in option. It is never the empty string.
\<close>

theorem activeFontStack_resolution:
  "(trim custom \<noteq> [] \<longrightarrow> activeFontStack CUSTOM_FONT_ID custom = trim custom)
   \<and> (trim custom = [] \<longrightarrow>
        activeFontStack CUSTOM_FONT_ID custom = stack (FONT_OPTIONS ! 0))
   \<and> (\<forall>opt \<in> set FONT_OPTIONS. activeFontStack (font_id opt) custom = stack opt)
   \<and> (choice \<noteq> CUSTOM_FONT_ID \<and> choice \<notin> font_id ` set FONT_OPTIONS \<longrightarrow>
        activeFontStack choice custom = stack (FONT_OPTIONS ! 0))
   \<and> activeFontStack choice custom \<noteq> []"
proof -
  have custom1: "trim custom \<noteq> [] \<longrightarrow> activeFontStack CUSTOM_FONT_ID custom = trim custom"
    by (simp add: activeFontStack_def or_string_def)
  have custom2: "trim custom = [] \<longrightarrow>
        activeFontStack CUSTOM_FONT_ID custom = stack (FONT_OPTIONS ! 0)"
    by (simp add: activeFontStack_def or_string_def DEFAULT_FONT_STACK_def)
  have builtin: "\<forall>opt \<in> set FONT_OPTIONS. activeFontStack (font_id opt) custom = stack opt"
    by (simp add: FONT_OPTIONS_def activeFontStack_def or_string_def CUSTOM_FONT_ID_def)
  have unknown: "choice \<noteq> CUSTOM_FONT_ID \<and> choice \<notin> font_id ` set FONT_OPTIONS \<longrightarrow>
        activeFontStack choice custom = stack (FONT_OPTIONS ! 0)"
    by (simp add: FONT_OPTIONS_def activeFontStack_def or_string_def DEFAULT_FONT_STACK_def)
  have default: "DEFAULT_FONT_STACK \<noteq> []"
    by (simp add: DEFAULT_FONT_STACK_def FONT_OPTIONS_def)
  have found: "stack opt \<noteq> []"
    if "find (\<lambda>option. font_id option = choice) FONT_OPTIONS = Some opt" for opt
  proof -
    from that have "opt \<in> set FONT_OPTIONS"
      by (auto simp: find_Some_iff)
    then show ?thesis by (auto simp: FONT_OPTIONS_def)
  qed
  have nonempty: "activeFontStack choice custom \<noteq> []"
  proof (cases "choice = CUSTOM_FONT_ID")
    case True
    then show ?thesis using default by (simp add: activeFontStack_def or_string_def)
  next
    case False
    show ?thesis
    proof (cases "find (\<lambda>option. font_id option = choice) FONT_OPTIONS")
      case None
      then show ?thesis using False default by (simp add: activeFontStack_def or_string_def)
    next
      case (Some opt)
      then show ?thesis using False found [OF Some] by (simp add: activeFontStack_def or_string_def)
    qed
  qed
  from custom1 custom2 builtin unknown nonempty show ?thesis by blast
qed

theorem activeFontStack_resolution_witness:
  \<open>activeFontStack ''custom'' ''  Georgia, serif '' = ''Georgia, serif''
   \<and> activeFontStack ''custom'' ''   '' = stack (FONT_OPTIONS ! 0)
   \<and> activeFontStack ''mono'' '''' = ''"IBM Plex Mono", "Source Code Pro", "SFMono-Regular", monospace''
   \<and> activeFontStack ''comic'' '''' = stack (FONT_OPTIONS ! 0)
   \<and> stack (FONT_OPTIONS ! 0) \<noteq> []\<close>
  using activeFontStack_resolution [where custom = "''  Georgia, serif ''"]
    activeFontStack_resolution [where custom = "''   ''"]
    activeFontStack_resolution [where custom = "''''" and choice = "''comic''"]
  by (simp add: FONT_OPTIONS_def CUSTOM_FONT_ID_def trim_def js_whitespace_def)

section \<open>Properties of the handlers\<close>

lemmas setters =
  setBook_def setRendition_def setToc_def setProgress_def setFontSize_def setTheme_def
  setCurrentChapter_def setFileName_def setLoading_def setError_def setFontChoice_def
  setCustomFont_def setLineSpacing_def setActiveHref_def

lemmas engine_ops =
  call_def ePub_def renderTo_def themes_fontSize_def display_def locations_generate_def
  rendition_destroy_def book_destroy_def

lemmas lifecycle =
  handleFileSelection_def initialiseBook_def load_try_def destroyCurrentBook_def

lemmas initial = initial_world_def initial_app_def initial_engine_def

subsection \<open>Projections of the world after a setter or an engine command\<close>

lemma setter_app [simp]:
  "app (setBook b w) = (app w)\<lparr>book := b\<rparr>"
  "app (setRendition r w) = (app w)\<lparr>rendition := r\<rparr>"
  "app (setToc t w) = (app w)\<lparr>toc := t\<rparr>"
  "app (setProgress p w) = (app w)\<lparr>progress := p\<rparr>"
  "app (setFontSize p w) = (app w)\<lparr>fontSize := p\<rparr>"
  "app (setTheme th w) = (app w)\<lparr>theme := th\<rparr>"
  "app (setCurrentChapter s w) = (app w)\<lparr>currentChapter := s\<rparr>"
  "app (setFileName s w) = (app w)\<lparr>fileName := s\<rparr>"
  "app (setLoading l w) = (app w)\<lparr>loading := l\<rparr>"
  "app (setError e w) = (app w)\<lparr>error := e\<rparr>"
  "app (setFontChoice s w) = (app w)\<lparr>fontChoice := s\<rparr>"
  "app (setCustomFont s w) = (app w)\<lparr>customFont := s\<rparr>"
  "app (setLineSpacing p w) = (app w)\<lparr>lineSpacing := p\<rparr>"
  "app (setActiveHref s w) = (app w)\<lparr>activeHref := s\<rparr>"
  by (simp_all add: setters)

lemma setter_engine [simp]:
  "engine (setBook b w) = engine w"
  "engine (setRendition r w) = engine w"
  "engine (setToc t w) = engine w"
  "engine (setProgress p w) = engine w"
  "engine (setFontSize p w) = engine w"
  "engine (setTheme th w) = engine w"
  "engine (setCurrentChapter s w) = engine w"
  "engine (setFileName s w) = engine w"
  "engine (setLoading l w) = engine w"
  "engine (setError e w) = engine w"
  "engine (setFontChoice s w) = engine w"
  "engine (setCustomFont s w) = engine w"
  "engine (setLineSpacing p w) = engine w"
  "engine (setActiveHref s w) = engine w"
  by (simp_all add: setters)

lemma setter_viewer [simp]:
  "viewer (setBook b w) = viewer w"
  "viewer (setRendition r w) = viewer w"
  "viewer (setToc t w) = viewer w"
  "viewer (setProgress p w) = viewer w"
  "viewer (setFontSize p w) = viewer w"
  "viewer (setTheme th w) = viewer w"
  "viewer (setCurrentChapter s w) = viewer w"
  "viewer (setFileName s w) = viewer w"
  "viewer (setLoading l w) = viewer w"
  "viewer (setError e w) = viewer w"
  "viewer (setFontChoice s w) = viewer w"
  "viewer (setCustomFont s w) = viewer w"
  "viewer (setLineSpacing p w) = viewer w"
  "viewer (setActiveHref s w) = viewer w"
  by (simp_all add: setters)

lemma engine_op_app [simp]:
  "app (call c w) = app w"
  "app (snd (ePub n w)) = app w"
  "app (snd (renderTo b w)) = app w"
  "app (themes_fontSize r s w) = app w"
  "app (display r t w) = app w"
  "app (locations_generate b k n w) = app w"
  "app (rendition_destroy r w) = app w"
  "app (book_destroy b w) = app w"
  by (simp_all add: engine_ops Let_def)

lemma engine_op_viewer [simp]:
  "viewer (call c w) = viewer w"
  "viewer (snd (ePub n w)) = viewer w"
  "viewer (snd (renderTo b w)) = viewer w"
  "viewer (themes_fontSize r s w) = viewer w"
  "viewer (display r t w) = viewer w"
  "viewer (locations_generate b k n w) = viewer w"
  "viewer (rendition_destroy r w) = viewer w"
  "viewer (book_destroy b w) = viewer w"
  by (simp_all add: engine_ops Let_def)

lemma engine_op_handle [simp]:
  "fst (ePub n w) = fresh (engine w)"
  "fst (renderTo b w) = fresh (engine w)"
  by (simp_all add: engine_ops Let_def)

lemma engine_op_calls [simp]:
  "calls (engine (call c w)) = calls (engine w) @ [c]"
  "calls (engine (snd (ePub n w))) = calls (engine w) @ [EPub (fresh (engine w))]"
  "calls (engine (snd (renderTo b w))) = calls (engine w) @ [RenderTo b (fresh (engine w))]"
  "calls (engine (themes_fontSize r s w)) = calls (engine w) @ [ThemesFontSize r s]"
  "calls (engine (display r t w)) = calls (engine w) @ [Display r t]"
  "calls (engine (locations_generate b k n w)) = calls (engine w) @ [LocationsGenerate b k]"
  "calls (engine (rendition_destroy r w)) = calls (engine w) @ [RenditionDestroy r]"
  "calls (engine (book_destroy b w)) = calls (engine w) @ [BookDestroy b]"
  by (simp_all add: engine_ops Let_def)

lemma engine_op_live_books [simp]:
  "live_books (engine (call c w)) = live_books (engine w)"
  "live_books (engine (snd (ePub n w))) = live_books (engine w) @ [fresh (engine w)]"
  "live_books (engine (snd (renderTo b w))) = live_books (engine w)"
  "live_books (engine (themes_fontSize r s w)) = live_books (engine w)"
  "live_books (engine (display r t w)) = live_books (engine w)"
  "live_books (engine (locations_generate b k n w)) = live_books (engine w)"
  "live_books (engine (rendition_destroy r w)) = live_books (engine w)"
  "live_books (engine (book_destroy b w)) = removeAll b (live_books (engine w))"
  by (simp_all add: engine_ops Let_def)

lemma engine_op_live_renditions [simp]:
  "live_renditions (engine (call c w)) = live_renditions (engine w)"
  "live_renditions (engine (snd (ePub n w))) = live_renditions (engine w)"
  "live_renditions (engine (snd (renderTo b w))) = live_renditions (engine w) @ [fresh (engine w)]"
  "live_renditions (engine (themes_fontSize r s w)) = live_renditions (engine w)"
  "live_renditions (engine (display r t w)) = live_renditions (engine w)"
  "live_renditions (engine (locations_generate b k n w)) = live_renditions (engine w)"
  "live_renditions (engine (rendition_destroy r w)) = removeAll r (live_renditions (engine w))"
  "live_renditions (engine (book_destroy b w)) = live_renditions (engine w)"
  by (simp_all add: engine_ops Let_def)

lemma engine_op_fresh [simp]:
  "fresh (engine (call c w)) = fresh (engine w)"
  "fresh (engine (snd (ePub n w))) = fresh (engine w) + 1"
  "fresh (engine (snd (renderTo b w))) = fresh (engine w) + 1"
  "fresh (engine (themes_fontSize r s w)) = fresh (engine w)"
  "fresh (engine (display r t w)) = fresh (engine w)"
  "fresh (engine (locations_generate b k n w)) = fresh (engine w)"
  "fresh (engine (rendition_destroy r w)) = fresh (engine w)"
  "fresh (engine (book_destroy b w)) = fresh (engine w)"
  by (simp_all add: engine_ops Let_def)

lemma engine_op_locations_length [simp]:
  "locations_length (engine (call c w)) = locations_length (engine w)"
  "locations_length (engine (snd (ePub n w))) = (locations_length (engine w))(fresh (engine w) := n)"
  "locations_length (engine (snd (renderTo b w))) = locations_length (engine w)"
  "locations_length (engine (themes_fontSize r s w)) = locations_length (engine w)"
  "locations_length (engine (display r t w)) = locations_length (engine w)"
  "locations_length (engine (locations_generate b k n w)) = (locations_length (engine w))(b := n)"
  "locations_length (engine (rendition_destroy r w)) = locations_length (engine w)"
  "locations_length (engine (book_destroy b w)) = locations_length (engine w)"
  by (simp_all add: engine_ops Let_def)

subsection \<open>Guards and the relocation handler\<close>

text \<open>
  C8: guard violations are silent no-ops. With no rendition, next-page and previous-page
  resolve (they do not throw) in the world they started in: no state has changed and the
  engine has received no command. The same holds for a progress change when there is no
  book, no rendition, or the location index of the book is empty.
\<close>

theorem guard_violations_are_noops:
  "(rendition (app w) = None \<longrightarrow> goNext ok w = Resolved w \<and> goPrevious ok w = Resolved w)
   \<and> (book (app w) = None \<or> rendition (app w) = None
        \<or> (\<exists>b. book (app w) = Some b \<and> locations_length (engine w) b = 0)
       \<longrightarrow> handleProgressChange ok v cfi w = Resolved w)"
  by (auto simp: goNext_def goPrevious_def handleProgressChange_def split: option.splits)

theorem guard_violations_are_noops_witness:
  "rendition (app no_book_world) = None
   \<and> goNext True no_book_world = Resolved no_book_world
   \<and> goPrevious True no_book_world = Resolved no_book_world
   \<and> handleProgressChange True 50 ''epubcfi(/6/2)'' no_book_world = Resolved no_book_world
   \<and> book (app no_index_world) = Some 0
   \<and> locations_length (engine no_index_world) 0 = 0
   \<and> handleProgressChange True 50 ''epubcfi(/6/2)'' no_index_world = Resolved no_index_world"
  using guard_violations_are_noops [of no_book_world True 50 "''epubcfi(/6/2)''"]
    guard_violations_are_noops [of no_index_world True 50 "''epubcfi(/6/2)''"]
  by (simp add: no_book_world_def no_index_world_def initial_world_def initial_app_def
        initial_engine_def)

text \<open>
  C9: when the relocation handler runs and the location index of the book is empty, the
  progress is left as it was; the world changes in the active locator and the chapter
  title only, which for a location with a start become the normalized start locator and
  its resolved chapter title.
\<close>

theorem onRelocated_without_index_keeps_progress:
  "locations_length (engine w) b = 0 \<longrightarrow>
     progress (app (onRelocated ops b location p w)) = progress (app w)
     \<and> onRelocated ops b location p w =
         w\<lparr>app := (app w)\<lparr>activeHref := activeHref (app (onRelocated ops b location p w)),
                           currentChapter := currentChapter (app (onRelocated ops b location p w))\<rparr>\<rparr>
     \<and> (\<forall>st. location = Some (Location (Some st)) \<longrightarrow>
           activeHref (app (onRelocated ops b location p w)) = normalizeHref (start_href st)
           \<and> currentChapter (app (onRelocated ops b location p w)) =
               resolveChapterTitle (tocItems (toc (app w))) (Some (normalizeHref (start_href st))))"
  by (auto simp: onRelocated_def setters Let_def split: option.splits)

theorem onRelocated_without_index_keeps_progress_witness:
  "locations_length (engine no_index_world) 0 = 0
   \<and> progress (app no_index_world) = 42
   \<and> progress (app (onRelocated plain_ops 0
        (Some (Location (Some \<lparr>start_href = Some ''b.xhtml#y'', start_cfi = ''epubcfi(/6/4)''\<rparr>)))
        7 no_index_world)) = 42
   \<and> activeHref (app (onRelocated plain_ops 0
        (Some (Location (Some \<lparr>start_href = Some ''b.xhtml#y'', start_cfi = ''epubcfi(/6/4)''\<rparr>)))
        7 no_index_world)) = ''b.xhtml''"
  using onRelocated_without_index_keeps_progress
    [of no_index_world 0 plain_ops
        "Some (Location (Some \<lparr>start_href = Some ''b.xhtml#y'', start_cfi = ''epubcfi(/6/4)''\<rparr>))" 7]
  by (simp add: no_index_world_def initial_app_def initial_engine_def normalizeHref_Some)

text \<open>
  With a location index, the relocation handler stores the percentage that
  \<open>Number((p * 100).toFixed(1))\<close> computes for a finite fraction, and 0 otherwise.
\<close>

lemma onRelocated_with_index_progress:
  assumes "locations_length (engine w) b \<noteq> 0"
  shows "progress (app (onRelocated ops b (Some (Location (Some st))) p w)) =
           (if isFinite ops p then toPercent1 ops p else 0)"
  using assms by (simp add: onRelocated_def Let_def)

subsection \<open>The stored progress in binary64 arithmetic\<close>

lemma nearest_tenth_close: "\<bar>nearest_tenth x - x\<bar> \<le> 1 / 20"
proof (cases "x < 0")
  case True
  define n where "n = \<lfloor>10 * (- x) + 1 / 2\<rfloor>"
  have "of_int n \<le> 10 * (- x) + 1 / 2" and "10 * (- x) + 1 / 2 < of_int n + 1"
    unfolding n_def by linarith+
  moreover have "nearest_tenth x = - (of_int n / 10)"
    using True unfolding n_def nearest_tenth_def by (simp only: if_True)
  ultimately show ?thesis by linarith
next
  case False
  define n where "n = \<lfloor>10 * x + 1 / 2\<rfloor>"
  have "of_int n \<le> 10 * x + 1 / 2" and "10 * x + 1 / 2 < of_int n + 1"
    unfolding n_def by linarith+
  moreover have "nearest_tenth x = of_int n / 10"
    using False unfolding n_def nearest_tenth_def by (simp only: if_False)
  ultimately show ?thesis by linarith
qed

lemma nearest_tenth_tenths: "\<exists>n::int. nearest_tenth x = of_int n / 10"
proof (cases "x < 0")
  case True
  then have "nearest_tenth x = of_int (- \<lfloor>10 * (- x) + 1 / 2\<rfloor>) / 10"
    by (simp add: nearest_tenth_def)
  then show ?thesis by blast
next
  case False
  then have "nearest_tenth x = of_int \<lfloor>10 * x + 1 / 2\<rfloor> / 10"
    by (simp add: nearest_tenth_def)
  then show ?thesis by blast
qed

lemma exponent_le:
  assumes "0 < a"
  shows "2 powi exponent a \<le> a"
proof (cases "1 \<le> a")
  case True
  then have pos: "0 < \<lfloor>a\<rfloor>" by linarith
  then have b: "1 \<le> bitlen \<lfloor>a\<rfloor>"
    using bitlen_eq_zero_iff [of "\<lfloor>a\<rfloor>"] bitlen_nonneg [of "\<lfloor>a\<rfloor>"] by linarith
  have "(2::int) ^ nat (bitlen \<lfloor>a\<rfloor> - 1) \<le> \<lfloor>a\<rfloor>"
    using bitlen_bounds [OF pos] by simp
  then have "of_int ((2::int) ^ nat (bitlen \<lfloor>a\<rfloor> - 1)) \<le> (of_int \<lfloor>a\<rfloor> :: rat)"
    by (simp only: of_int_le_iff)
  then have "(2::rat) ^ nat (bitlen \<lfloor>a\<rfloor> - 1) \<le> a"
    by (simp add: le_floor_iff)
  with True b show ?thesis
    by (simp add: exponent_def power_int_def)
next
  case False
  define c where "c = \<lceil>1 / a\<rceil>"
  define k where "k = nat (bitlen (c - 1))"
  from False assms have "1 < 1 / a" by (simp add: field_simps)
  then have "2 \<le> c" unfolding c_def by linarith
  then have pos: "0 < c - 1" by simp
  have "c - 1 < 2 ^ k"
    unfolding k_def using bitlen_bounds [OF pos] by simp
  then have "c \<le> 2 ^ k" by simp
  then have "(of_int c :: rat) \<le> of_int (2 ^ k)"
    by (simp only: of_int_le_iff)
  then have "(of_int c :: rat) \<le> 2 ^ k" by simp
  moreover have "1 / a \<le> of_int c" unfolding c_def by linarith
  ultimately have "1 / a \<le> 2 ^ k" by linarith
  with assms have "1 / 2 ^ k \<le> a"
    by (simp add: field_simps)
  moreover have "1 \<le> bitlen (c - 1)"
    using pos bitlen_eq_zero_iff [of "c - 1"] bitlen_nonneg [of "c - 1"] by linarith
  then have "(2::rat) powi (- bitlen (c - 1)) = 1 / 2 ^ k"
    by (simp add: power_int_def k_def power_one_over)
  ultimately show ?thesis
    using False by (simp add: exponent_def c_def)
qed


lemma round_half_even_le: "of_int (round_half_even x) \<le> x + 1 / 2"
proof -
  define f where "f = \<lfloor>x\<rfloor>"
  have "of_int f \<le> x" "x < of_int f + 1" unfolding f_def by linarith+
  then show ?thesis
    by (auto simp: round_half_even_def Let_def f_def [symmetric])
qed

lemma round_half_even_nonneg: "0 \<le> x \<Longrightarrow> 0 \<le> round_half_even x"
proof -
  assume "0 \<le> x"
  then have "0 \<le> \<lfloor>x\<rfloor>" by simp
  then show ?thesis
    by (auto simp: round_half_even_def Let_def)
qed

lemma round_double_percentage:
  assumes "0 < a" and "a \<le> 100"
  shows "\<exists>x. round_double a = Finite x \<and> 0 \<le> x \<and> x \<le> 101"
proof -
  define e where "e = max (exponent a) (- 1022)"
  define quantum :: rat where "quantum = 2 powi (e - 52)"
  define v where "v = of_int (round_half_even (a / quantum)) * quantum"
  have "(2::rat) powi exponent a \<le> a" using assms(1) by (rule exponent_le)
  also have "a < 2 powi 7" using assms(2) by simp
  finally have "exponent a < 7"
    by (rule power_int_le_imp_less_exp [of 2, rotated]) simp_all
  then have "e - 52 \<le> 0" unfolding e_def by simp
  then have "quantum \<le> 2 powi 0"
    unfolding quantum_def by (intro power_int_increasing) simp_all
  then have q1: "quantum \<le> 1" by simp
  have q0: "0 < quantum" unfolding quantum_def by (simp add: zero_less_power_int)
  have "of_int (round_half_even (a / quantum)) \<le> a / quantum + 1 / 2"
    by (rule round_half_even_le)
  then have "v \<le> (a / quantum + 1 / 2) * quantum"
    unfolding v_def using q0 by (intro mult_right_mono) simp_all
  also have "\<dots> = a + quantum / 2" using q0 by (simp add: field_simps)
  finally have v_le: "v \<le> 101" using assms(2) q1 by linarith
  have "0 \<le> a / quantum" using assms(1) q0 by simp
  then have "0 \<le> round_half_even (a / quantum)" by (rule round_half_even_nonneg)
  then have v_ge: "0 \<le> v" unfolding v_def using q0 by simp
  have "v < 2 powi 1024"
  proof -
    have "(101::rat) < 2 ^ 7" by simp
    also have "\<dots> \<le> 2 ^ 1024" by (intro power_increasing) simp_all
    finally show ?thesis using v_le by simp
  qed
  then have "round_double a = Finite v"
    using assms(1)
    by (simp add: round_double_def Let_def e_def [symmetric] quantum_def [symmetric]
          v_def [symmetric] del: power_int_numeral)
  with v_ge v_le show ?thesis by blast
qed

lemma times100_fraction:
  assumes "0 \<le> q" and "q \<le> 1"
  shows "\<exists>x. times100 (Finite q) = Finite x \<and> \<bar>x\<bar> < 10 ^ 21"
proof (cases "q = 0")
  case True
  then show ?thesis by (simp add: times100_def round_double_def)
next
  case False
  with assms have "0 < q * 100" "q * 100 \<le> 100" by simp_all
  then obtain x where "round_double (q * 100) = Finite x" "0 \<le> x" "x \<le> 101"
    using round_double_percentage by blast
  then show ?thesis by (auto simp: times100_def)
qed


text \<open>
  The double nearest to 0.4567, its product with 100, and the double nearest to 45.7.
\<close>

lemma times100_4567:
  "times100 (round_double (4567 / 10000)) = Finite (3213740546593915 / 2 ^ 46)"
  by code_simp

lemma double_4567: "round_double (4567 / 10000) = Finite (4113587899640211 / 2 ^ 53)"
  by code_simp

lemma double_457: "round_double (457 / 10) = Finite (3215851608919245 / 2 ^ 46)"
  by code_simp

lemma nearest_tenth_4567: "nearest_tenth (3213740546593915 / 2 ^ 46) = 457 / 10"
  by code_simp

lemma progress_double_ops:
  assumes "locations_length (engine w) b \<noteq> 0"
  shows "progress (app (onRelocated double_ops b (Some (Location (Some st))) p w)) =
           (if Number_isFinite p then Number_toFixed1 (times100 p) else 0)"
  using assms by (simp add: onRelocated_def double_ops_def Let_def)

text \<open>
  C6: on a relocation event, with a location index for the book, the stored progress is
  0 when the fraction reported by the index is not finite (\<open>NaN\<close> or an infinity). For a
  finite fraction whose product with 100 is a finite double \<open>x\<close> below \<open>10 ^ 21\<close> in
  magnitude, as it is for every fraction from 0 to 1, the stored progress is the double
  nearest to \<open>x\<close> rounded to one decimal place: a number of tenths at most \<open>1 / 20\<close> from
  \<open>x\<close>. For the double 0.4567 the stored progress is the double 45.7.
\<close>

theorem onRelocated_stores_rounded_percentage:
  "locations_length (engine w) b \<noteq> 0 \<longrightarrow>
     progress (app (onRelocated double_ops b (Some (Location (Some st))) NaN w)) = 0
     \<and> progress (app (onRelocated double_ops b (Some (Location (Some st))) PosInfinity w)) = 0
     \<and> progress (app (onRelocated double_ops b (Some (Location (Some st))) NegInfinity w)) = 0
     \<and> (times100 (Finite q) = Finite x \<and> \<bar>x\<bar> < 10 ^ 21 \<longrightarrow>
          progress (app (onRelocated double_ops b (Some (Location (Some st))) (Finite q) w)) =
            round_double (nearest_tenth x))
     \<and> (0 \<le> q \<and> q \<le> 1 \<longrightarrow>
          (\<exists>y. times100 (Finite q) = Finite y
             \<and> progress (app (onRelocated double_ops b (Some (Location (Some st))) (Finite q) w)) =
                 round_double (nearest_tenth y)))
     \<and> \<bar>nearest_tenth x - x\<bar> \<le> 1 / 20
     \<and> (\<exists>n::int. nearest_tenth x = of_int n / 10)
     \<and> progress (app (onRelocated double_ops b (Some (Location (Some st)))
           (round_double (4567 / 10000)) w)) = round_double (457 / 10)"
proof (intro impI)
  assume index: "locations_length (engine w) b \<noteq> 0"
  note prog = progress_double_ops [OF index]
  have non_finite:
    "progress (app (onRelocated double_ops b (Some (Location (Some st))) NaN w)) = 0"
    "progress (app (onRelocated double_ops b (Some (Location (Some st))) PosInfinity w)) = 0"
    "progress (app (onRelocated double_ops b (Some (Location (Some st))) NegInfinity w)) = 0"
    by (simp_all add: prog Number_isFinite_def)
  have finite: "progress (app (onRelocated double_ops b (Some (Location (Some st))) (Finite r) w)) =
      round_double (nearest_tenth z)"
    if "times100 (Finite r) = Finite z" and "\<bar>z\<bar> < 10 ^ 21" for r z
    using that by (simp add: prog Number_isFinite_def Number_toFixed1_def)
  have fraction: "\<exists>y. times100 (Finite q) = Finite y
      \<and> progress (app (onRelocated double_ops b (Some (Location (Some st))) (Finite q) w)) =
          round_double (nearest_tenth y)"
    if "0 \<le> q \<and> q \<le> 1"
  proof -
    from that obtain y where "times100 (Finite q) = Finite y" "\<bar>y\<bar> < 10 ^ 21"
      using times100_fraction [of q] by blast
    then show ?thesis using finite by blast
  qed
  have example: "progress (app (onRelocated double_ops b (Some (Location (Some st)))
      (round_double (4567 / 10000)) w)) = round_double (457 / 10)"
  proof -
    have "times100 (Finite (4113587899640211 / 2 ^ 53)) = Finite (3213740546593915 / 2 ^ 46)"
      using times100_4567 by (simp only: double_4567)
    moreover have "\<bar>3213740546593915 / 2 ^ 46 :: rat\<bar> < 10 ^ 21" by simp
    ultimately show ?thesis
      using finite [of "4113587899640211 / 2 ^ 53" "3213740546593915 / 2 ^ 46"]
      by (simp only: double_4567 nearest_tenth_4567)
  qed
  from non_finite finite [of q x] fraction example nearest_tenth_close [of x]
    nearest_tenth_tenths [of x]
  show "progress (app (onRelocated double_ops b (Some (Location (Some st))) NaN w)) = 0
     \<and> progress (app (onRelocated double_ops b (Some (Location (Some st))) PosInfinity w)) = 0
     \<and> progress (app (onRelocated double_ops b (Some (Location (Some st))) NegInfinity w)) = 0
     \<and> (times100 (Finite q) = Finite x \<and> \<bar>x\<bar> < 10 ^ 21 \<longrightarrow>
          progress (app (onRelocated double_ops b (Some (Location (Some st))) (Finite q) w)) =
            round_double (nearest_tenth x))
     \<and> (0 \<le> q \<and> q \<le> 1 \<longrightarrow>
          (\<exists>y. times100 (Finite q) = Finite y
             \<and> progress (app (onRelocated double_ops b (Some (Location (Some st))) (Finite q) w)) =
                 round_double (nearest_tenth y)))
     \<and> \<bar>nearest_tenth x - x\<bar> \<le> 1 / 20
     \<and> (\<exists>n::int. nearest_tenth x = of_int n / 10)
     \<and> progress (app (onRelocated double_ops b (Some (Location (Some st)))
           (round_double (4567 / 10000)) w)) = round_double (457 / 10)"
    by blast
qed

theorem onRelocated_stores_rounded_percentage_witness:
  "locations_length (engine indexed_world) 0 \<noteq> 0
   \<and> progress (app indexed_world) = Finite 42
   \<and> progress (app (onRelocated double_ops 0
        (Some (Location (Some \<lparr>start_href = Some ''b.xhtml#s1'', start_cfi = ''epubcfi(/6/4)''\<rparr>)))
        (Finite (4113587899640211 / 2 ^ 53)) indexed_world)) = Finite (3215851608919245 / 2 ^ 46)
   \<and> \<bar>(457 / 10 :: rat) - 3213740546593915 / 2 ^ 46\<bar> \<le> 1 / 20
   \<and> progress (app (onRelocated double_ops 0
        (Some (Location (Some \<lparr>start_href = Some ''b.xhtml#s1'', start_cfi = ''epubcfi(/6/4)''\<rparr>)))
        NaN indexed_world)) = Finite 0"
proof -
  let ?st = "\<lparr>start_href = Some ''b.xhtml#s1'', start_cfi = ''epubcfi(/6/4)''\<rparr>"
  have index: "locations_length (engine indexed_world) 0 \<noteq> 0"
    by (simp add: indexed_world_def)
  have before: "progress (app indexed_world) = Finite 42"
    by (simp add: indexed_world_def)
  have scaled: "times100 (Finite (4113587899640211 / 2 ^ 53)) = Finite (3213740546593915 / 2 ^ 46)"
    using times100_4567 by (simp only: double_4567)
  have small: "\<bar>3213740546593915 / 2 ^ 46 :: rat\<bar> < 10 ^ 21"
    by simp
  note rounded = onRelocated_stores_rounded_percentage
    [of indexed_world 0 ?st "4113587899640211 / 2 ^ 53" "3213740546593915 / 2 ^ 46",
     THEN mp, OF index]
  from rounded scaled small
  have "progress (app (onRelocated double_ops 0 (Some (Location (Some ?st)))
      (Finite (4113587899640211 / 2 ^ 53)) indexed_world)) =
        round_double (nearest_tenth (3213740546593915 / 2 ^ 46))"
    by blast
  then have stored: "progress (app (onRelocated double_ops 0 (Some (Location (Some ?st)))
      (Finite (4113587899640211 / 2 ^ 53)) indexed_world)) = Finite (3215851608919245 / 2 ^ 46)"
    by (simp only: nearest_tenth_4567 double_457)
  from rounded have "\<bar>nearest_tenth (3213740546593915 / 2 ^ 46) - 3213740546593915 / 2 ^ 46\<bar> \<le> 1 / 20"
    by blast
  then have close: "\<bar>(457 / 10 :: rat) - 3213740546593915 / 2 ^ 46\<bar> \<le> 1 / 20"
    by (simp only: nearest_tenth_4567)
  from rounded have "progress (app (onRelocated double_ops 0 (Some (Location (Some ?st)))
      NaN indexed_world)) = 0"
    by blast
  then have nan: "progress (app (onRelocated double_ops 0 (Some (Location (Some ?st)))
      NaN indexed_world)) = Finite 0"
    by (simp only: zero_number_def)
  from index before stored close nan show ?thesis by blast
qed


text \<open>
  The other finite fractions: from \<open>10 ^ 21\<close> on the product is stored as it is, and a
  product that overflows is stored as that infinity.
\<close>

lemma progress_beyond_toFixed_range:
  assumes "locations_length (engine w) b \<noteq> 0"
  shows "times100 (Finite q) = Finite x \<and> 10 ^ 21 \<le> \<bar>x\<bar> \<longrightarrow>
           progress (app (onRelocated double_ops b (Some (Location (Some st))) (Finite q) w)) =
             Finite x"
    and "times100 (Finite q) = PosInfinity \<longrightarrow>
           progress (app (onRelocated double_ops b (Some (Location (Some st))) (Finite q) w)) =
             PosInfinity"
    and "times100 (Finite q) = NegInfinity \<longrightarrow>
           progress (app (onRelocated double_ops b (Some (Location (Some st))) (Finite q) w)) =
             NegInfinity"
  by (simp_all add: progress_double_ops [OF assms] Number_isFinite_def Number_toFixed1_def)

subsection \<open>The active locator\<close>

lemma destroyCurrentBook_app:
  "app (destroyCurrentBook b r w) =
     (app w)\<lparr>book := (if b = None then book (app w) else None),
              rendition := (if r = None then rendition (app w) else None)\<rparr>"
  by (cases b; cases r) (simp_all add: destroyCurrentBook_def)

lemma activeHref_load_try:
  "activeHref (app (snd (load_try reply fs name w))) = activeHref (app w)"
proof (cases "throws_at reply")
  case None
  then show ?thesis
    by (simp add: load_try_def Let_def split_beta)
next
  case (Some s)
  then show ?thesis
    by (cases s) (simp_all add: load_try_def Let_def split_beta)
qed

lemma activeHref_initialiseBook:
  "activeHref (app (initialiseBook b r fs reply name w)) =
     (if viewer w then [] else activeHref (app w))"
  by (simp add: initialiseBook_def destroyCurrentBook_app activeHref_load_try Let_def split_beta)

lemma activeHref_step:
  "activeHref (app (step ops e w)) = activeHref (app w)
   \<or> activeHref (app (step ops e w)) = []
   \<or> (\<exists>h. activeHref (app (step ops e w)) = normalizeHref h)"
proof (cases e)
  case (SelectFile f)
  then show ?thesis
    by (auto simp: handleFileSelection_def activeHref_initialiseBook split: option.splits)
next
  case (ClickToc ok h)
  then show ?thesis
    by (auto simp: goTo_def Let_def split: option.splits)
next
  case (ClickPrevious ok)
  then show ?thesis by (auto simp: goPrevious_def split: option.splits)
next
  case (ClickNext ok)
  then show ?thesis by (auto simp: goNext_def split: option.splits)
next
  case (ProgressChange ok v cfi)
  then show ?thesis by (auto simp: handleProgressChange_def Let_def split: option.splits)
next
  case (Relocated location percentage)
  then show ?thesis
    by (auto simp: relocated_def onRelocated_def Let_def split: option.splits)
qed simp_all

lemma activeHref_step_no_hash:
  assumes "CHR ''#'' \<notin> set (activeHref (app w))"
  shows "CHR ''#'' \<notin> set (activeHref (app (step ops e w)))"
  using activeHref_step [of ops e w] assms normalizeHref_no_hash by auto

lemma activeHref_run_no_hash:
  "CHR ''#'' \<notin> set (activeHref (app w)) \<Longrightarrow>
   CHR ''#'' \<notin> set (activeHref (app (run ops events w)))"
  unfolding run_def
  by (induction events arbitrary: w) (simp_all add: activeHref_step_no_hash)

text \<open>
  C10: the active locator never contains a \<open>#\<close>: in every state that the component
  reaches from its initial state, by any sequence of events, it has none; and every event
  leaves the active locator as it was, or writes the empty string or a normalized
  locator.
\<close>

theorem activeHref_has_no_fragment:
  "CHR ''#'' \<notin> set (activeHref (app (run ops events initial_world)))
   \<and> (activeHref (app (step ops e w)) = activeHref (app w)
      \<or> activeHref (app (step ops e w)) = []
      \<or> (\<exists>h. activeHref (app (step ops e w)) = normalizeHref h))"
proof -
  have "CHR ''#'' \<notin> set (activeHref (app (initial_world :: 'a world)))"
    by (simp add: initial_world_def initial_app_def)
  then show ?thesis
    using activeHref_run_no_hash activeHref_step by blast
qed


subsection \<open>Session lifecycle\<close>

lemma load_try_throws: "fst (load_try reply fs name w) = load_throws reply"
proof (cases "throws_at reply")
  case None
  then show ?thesis
    by (simp add: load_try_def load_throws_def Let_def split_beta)
next
  case (Some s)
  then show ?thesis
    by (cases s) (simp_all add: load_try_def load_throws_def Let_def split_beta)
qed

lemma destroyCurrentBook_engine [simp]:
  "calls (engine (destroyCurrentBook b r w)) =
     calls (engine w) @ (case r of None \<Rightarrow> [] | Some h \<Rightarrow> [RenditionDestroy h])
       @ (case b of None \<Rightarrow> [] | Some h \<Rightarrow> [BookDestroy h])"
  "live_books (engine (destroyCurrentBook b r w)) =
     (case b of None \<Rightarrow> live_books (engine w) | Some h \<Rightarrow> removeAll h (live_books (engine w)))"
  "live_renditions (engine (destroyCurrentBook b r w)) =
     (case r of None \<Rightarrow> live_renditions (engine w)
      | Some h \<Rightarrow> removeAll h (live_renditions (engine w)))"
  "fresh (engine (destroyCurrentBook b r w)) = fresh (engine w)"
  "locations_length (engine (destroyCurrentBook b r w)) = locations_length (engine w)"
  "viewer (destroyCurrentBook b r w) = viewer w"
  by (cases b; cases r; simp add: destroyCurrentBook_def)+

lemma initialiseBook_failure_resets_derived_state:
  assumes "viewer w" and "load_throws reply"
  shows "toc (app (initialiseBook b r fs reply name w)) = []
         \<and> progress (app (initialiseBook b r fs reply name w)) = 0
         \<and> currentChapter (app (initialiseBook b r fs reply name w)) = []
         \<and> activeHref (app (initialiseBook b r fs reply name w)) = []
         \<and> fileName (app (initialiseBook b r fs reply name w)) = []
         \<and> error (app (initialiseBook b r fs reply name w)) =
             Some ''We could not open that EPUB. Please try a different file.''
         \<and> \<not> loading (app (initialiseBook b r fs reply name w))"
proof -
  have "fst (load_try reply fs name w')" for w' :: "'a world"
    using assms(2) by (simp add: load_try_throws)
  then show ?thesis
    using assms(1)
    by (simp add: initialiseBook_def destroyCurrentBook_app Let_def split_beta)
qed

lemma load_try_ePub_failure:
  "throws_at reply = Some AtEPub \<Longrightarrow> load_try reply fs name w = (True, w)"
  by (simp add: load_try_def)

lemma handleFileSelection_ePub_failure_rolls_back:
  assumes "viewer w" and "throws_at reply = Some AtEPub"
  shows "book (app (handleFileSelection (Some (reply, name)) w)) = None
         \<and> rendition (app (handleFileSelection (Some (reply, name)) w)) = None"
  using assms
  by (simp add: handleFileSelection_def initialiseBook_def load_try_ePub_failure
        destroyCurrentBook_app Let_def)

lemma load_try_calls:
  "\<exists>rest. calls (engine (snd (load_try reply fs name w))) = calls (engine w) @ rest"
proof (cases "throws_at reply")
  case None
  then show ?thesis
    by (simp add: load_try_def Let_def split_beta)
next
  case (Some s)
  then show ?thesis
    by (cases s) (simp_all add: load_try_def Let_def split_beta)
qed

lemma handleFileSelection_destroys_first:
  assumes "viewer w" and "book (app w) = Some b" and "rendition (app w) = Some r"
  shows "\<exists>rest. calls (engine (handleFileSelection (Some (reply, name)) w)) =
           calls (engine w) @ RenditionDestroy r # BookDestroy b # rest"
proof -
  define w7 where "w7 = destroyCurrentBook (Some b) (Some r)
     (setActiveHref [] (setToc [] (setCurrentChapter [] (setProgress 0 (setError None
        (setLoading True w))))))"
  have c7: "calls (engine w7) = calls (engine w) @ [RenditionDestroy r, BookDestroy b]"
    by (simp add: w7_def)
  obtain rest where rest: "calls (engine (snd (load_try reply (fontSize (app w)) name w7))) =
      calls (engine w7) @ rest"
    using load_try_calls [of reply "fontSize (app w)" name w7] by blast
  have "calls (engine (handleFileSelection (Some (reply, name)) w)) =
      calls (engine w) @ RenditionDestroy r # BookDestroy b #
        (rest @ (if load_throws reply then [RenditionDestroy r, BookDestroy b] else []))"
    using assms rest c7 load_try_throws [of reply "fontSize (app w)" name w7]
    by (simp add: handleFileSelection_def initialiseBook_def Let_def split_beta w7_def)
  then show ?thesis by blast
qed

text \<open>
  C1 (rollback after a failed load). A load from the empty state whose initial display
  rejects does not end in the empty state: the rollback calls the \<open>destroyCurrentBook\<close>
  of the closure, which reads the book and the rendition from before the load (none), so
  the engine receives no destroy command, and the new book and rendition stay published
  and live, next to the error message.
\<close>

theorem initialiseBook_display_failure_keeps_session:
  "book (app (handleFileSelection (Some (display_fails, ''broken.epub'')) no_book_world)) = Some 0
   \<and> rendition (app (handleFileSelection (Some (display_fails, ''broken.epub'')) no_book_world)) = Some 1
   \<and> live_books (engine (handleFileSelection (Some (display_fails, ''broken.epub'')) no_book_world)) = [0]
   \<and> live_renditions (engine (handleFileSelection (Some (display_fails, ''broken.epub'')) no_book_world)) = [1]
   \<and> calls (engine (handleFileSelection (Some (display_fails, ''broken.epub'')) no_book_world)) =
       [EPub 0, RenderTo 0 1, ThemesFontSize 1 110]
   \<and> error (app (handleFileSelection (Some (display_fails, ''broken.epub'')) no_book_world)) =
       Some ''We could not open that EPUB. Please try a different file.''"
  by (simp add: display_fails_def good_reply_def no_book_world_def lifecycle initial setters
        engine_ops Let_def)

text \<open>
  C2 (one live session). When a load throws after the book and the rendition have been
  constructed and before they are published (here where the font size is set), nothing
  destroys them; after the next load two books and two renditions are live, and the
  engine has received no destroy command.
\<close>

theorem two_sessions_live_after_failed_load:
  "live_books (engine (run plain_ops
      [SelectFile (Some (fontSize_fails, ''first.epub'')),
       SelectFile (Some (good_reply, ''second.epub''))] no_book_world)) = [0, 2]
   \<and> live_renditions (engine (run plain_ops
      [SelectFile (Some (fontSize_fails, ''first.epub'')),
       SelectFile (Some (good_reply, ''second.epub''))] no_book_world)) = [1, 3]
   \<and> calls (engine (run plain_ops
      [SelectFile (Some (fontSize_fails, ''first.epub'')),
       SelectFile (Some (good_reply, ''second.epub''))] no_book_world)) =
       [EPub 0, RenderTo 0 1, EPub 2, RenderTo 2 3, ThemesFontSize 3 110, Display 3 None,
        LocationsGenerate 2 1200]"
  by (simp add: run_def fontSize_fails_def good_reply_def no_book_world_def lifecycle initial
        setters engine_ops Let_def)

end
